theory Spec2Isabelle
  imports Main "HOL-Library.Word"
begin

section \<open>JavaScript strings\<close>

text \<open>
  A JavaScript string is a sequence of 16-bit UTF-16 code units. ASCII literals of the
  source are written with \<open>ascii\<close>; the Chinese messages are given by their code units.
\<close>

type_synonym jsstring = "16 word list"

definition ascii :: "string \<Rightarrow> jsstring" where
  "ascii cs = map (\<lambda>c. of_nat (of_char c)) cs"

text \<open>\<^verbatim>\<open>s.startsWith(p)\<close>\<close>

definition startsWith :: "jsstring \<Rightarrow> jsstring \<Rightarrow> bool" where
  "startsWith s p = (take (length p) s = p)"

text \<open>
  The code units \<^verbatim>\<open>String.prototype.trim\<close> strips: ECMAScript WhiteSpace and
  LineTerminator (TAB, LF, VT, FF, CR, SP, NBSP, U+1680, U+2000..U+200A, LS, PS, U+202F,
  U+205F, U+3000, BOM).
\<close>

definition isWhiteSpace :: "16 word \<Rightarrow> bool" where
  "isWhiteSpace c = (c \<in> set [0x0009, 0x000A, 0x000B, 0x000C, 0x000D, 0x0020, 0x00A0, 0x1680,
      0x2000, 0x2001, 0x2002, 0x2003, 0x2004, 0x2005, 0x2006, 0x2007, 0x2008, 0x2009, 0x200A,
      0x2028, 0x2029, 0x202F, 0x205F, 0x3000, 0xFEFF])"

definition trim :: "jsstring \<Rightarrow> jsstring" where
  "trim s = rev (dropWhile isWhiteSpace (rev (dropWhile isWhiteSpace s)))"

text \<open>\<^verbatim>\<open>s.split(sep)\<close> for a separator of one code unit; the result is never empty.\<close>

fun split :: "16 word \<Rightarrow> jsstring \<Rightarrow> jsstring list" where
  "split sep [] = [[]]"
| "split sep (c # cs) =
     (if c = sep then [] # split sep cs
      else (case split sep cs of
              [] \<Rightarrow> [[c]]
            | x # xs \<Rightarrow> (c # x) # xs))"

text \<open>\<^verbatim>\<open>xs[i]\<close>: reading an array past its end gives \<^verbatim>\<open>undefined\<close>.\<close>

definition at :: "'a list \<Rightarrow> nat \<Rightarrow> 'a option" where
  "at xs i = (if i < length xs then Some (xs ! i) else None)"

text \<open>
  \<^verbatim>\<open>!x\<close> on a value of type \<^verbatim>\<open>string | null | undefined\<close>: \<^verbatim>\<open>null\<close>,
  \<^verbatim>\<open>undefined\<close> and the empty string are falsy.
\<close>

definition falsy :: "jsstring option \<Rightarrow> bool" where
  "falsy x = (case x of None \<Rightarrow> True | Some s \<Rightarrow> s = [])"

text \<open>\<^verbatim>\<open>x || d\<close> on the same type.\<close>

definition or_else :: "jsstring option \<Rightarrow> jsstring \<Rightarrow> jsstring" where
  "or_else x d = (case x of None \<Rightarrow> d | Some s \<Rightarrow> if s = [] then d else s)"

definition comma :: "16 word" where
  "comma = 0x002C"


section \<open>Style catalog\<close>

record StylePreset =
  id' :: jsstring
  label :: jsstring
  description :: jsstring
  prompt :: jsstring

definition PRESET_STYLES :: "StylePreset list" where
  "PRESET_STYLES =
    [\<lparr>id' = ascii ''anime'',
      label = [0x52D5, 0x6F2B, 0x98A8, 0x683C],
      description = ascii ''Inspired by Japanese animation with vibrant colors and distinct character designs.'',
      prompt = ascii ''Anime style, Studio Ghibli, high quality, vibrant colors, 2D illustration''\<rparr>,
     \<lparr>id' = ascii ''cyberpunk'',
      label = [0x8CFD, 0x535A, 0x9F90, 0x514B],
      description = ascii ''Futuristic sci-fi aesthetic with neon lights and high-tech elements.'',
      prompt = ascii ''Cyberpunk style, neon lights, futuristic city, highly detailed, sci-fi''\<rparr>,
     \<lparr>id' = ascii ''watercolor'',
      label = [0x6C34, 0x5F69, 0x756B],
      description = ascii ''Artistic painting style with soft edges and expressive brush strokes.'',
      prompt = ascii ''Watercolor painting style, artistic, soft edges, expressive brush strokes''\<rparr>,
     \<lparr>id' = ascii ''sketch'',
      label = [0x925B, 0x7B46, 0x7D20, 0x63CF],
      description = ascii ''Detailed black and white hand-drawn pencil illustration.'',
      prompt = ascii ''Pencil sketch style, detailed, black and white, hand-drawn''\<rparr>,
     \<lparr>id' = ascii ''3d'',
      label = [0x0033, 0x0044, 0x0020, 0x6E32, 0x67D3],
      description = ascii ''High-quality 3D computer graphics similar to modern animated films.'',
      prompt = ascii ''3D render, Pixar style, Unreal Engine 5, volumetric lighting, cute''\<rparr>]"


section \<open>User-facing messages\<close>

text \<open>The message literals of \<^verbatim>\<open>App.tsx\<close>, as UTF-16 code units.\<close>

definition MSG_NOT_AN_IMAGE :: jsstring where
  "MSG_NOT_AN_IMAGE = [0x8ACB, 0x4E0A, 0x50B3, 0x5716, 0x7247, 0x6A94, 0x6848, 0x0020, 0x0028,
     0x004A, 0x0050, 0x0045, 0x0047, 0x002C, 0x0020, 0x0050, 0x004E, 0x0047, 0x0020, 0x7B49, 0x0029]"

definition MSG_UPLOAD_FIRST :: jsstring where
  "MSG_UPLOAD_FIRST = [0x8ACB, 0x5148, 0x4E0A, 0x50B3, 0x5716, 0x7247]"

definition MSG_CHOOSE_STYLE :: jsstring where
  "MSG_CHOOSE_STYLE = [0x8ACB, 0x9078, 0x64C7, 0x6216, 0x8F38, 0x5165, 0x98A8, 0x683C]"

definition MSG_NO_RESULT :: jsstring where
  "MSG_NO_RESULT = [0x7121, 0x6CD5, 0x751F, 0x6210, 0x5716, 0x7247, 0xFF0C, 0x8ACB, 0x7A0D,
     0x5F8C, 0x518D, 0x8A66]"

definition MSG_GENERIC :: jsstring where
  "MSG_GENERIC = [0x767C, 0x751F, 0x932F, 0x8AA4, 0xFF0C, 0x8ACB, 0x7A0D, 0x5F8C, 0x518D, 0x8A66]"


section \<open>Application state\<close>

text \<open>The eight \<^verbatim>\<open>useState\<close> cells of \<^verbatim>\<open>App\<close>, with their initial values.\<close>

record app_state =
  originalImage :: "jsstring option"
  mimeType :: jsstring
  selectedStyle :: jsstring
  customStyle :: jsstring
  generatedImage :: "jsstring option"
  isGenerating :: bool
  error :: "jsstring option"
  isDragging :: bool

definition initial_state :: app_state where
  "initial_state =
    \<lparr>originalImage = None,
     mimeType = [],
     selectedStyle = (case PRESET_STYLES of p # _ \<Rightarrow> id' p | [] \<Rightarrow> []),
     customStyle = [],
     generatedImage = None,
     isGenerating = False,
     error = None,
     isDragging = False\<rparr>"


section \<open>Image intake\<close>

text \<open>
  A \<^verbatim>\<open>File\<close> as the handlers see it: its declared media type, and its bytes, kept here
  in the base64 form in which the reader hands them over.
\<close>

record File =
  type :: jsstring
  base64 :: jsstring

text \<open>
  Modelled from the spec: \<^verbatim>\<open>FileReader.readAsDataURL\<close>, a browser interface outside the
  repository. The spec has it "encode [the content] as a base64 data-URI string"; the
  data-URI of a file is \<^verbatim>\<open>data:<type>;base64,<payload>\<close>.
\<close>

definition readAsDataURL :: "File \<Rightarrow> jsstring" where
  "readAsDataURL file = ascii ''data:'' @ type file @ ascii '';base64,'' @ base64 file"

text \<open>The \<^verbatim>\<open>reader.onload\<close> callback of \<^verbatim>\<open>processFile\<close>; \<open>result\<close> is \<^verbatim>\<open>event.target.result\<close>.\<close>

definition reader_onload :: "jsstring \<Rightarrow> File \<Rightarrow> app_state \<Rightarrow> app_state" where
  "reader_onload result file s =
     s\<lparr>originalImage := Some result,
       mimeType := type file,
       generatedImage := None,
       error := None\<rparr>"

text \<open>
  \<^verbatim>\<open>processFile\<close>. The read completes out of band; its callback writes constants only, so
  the state it is applied to is the state at completion.
\<close>

definition processFile :: "File \<Rightarrow> app_state \<Rightarrow> app_state" where
  "processFile file s =
     (if \<not> startsWith (type file) (ascii ''image/'')
      then s\<lparr>error := Some MSG_NOT_AN_IMAGE\<rparr>
      else reader_onload (readAsDataURL file) file s)"

text \<open>The argument is \<^verbatim>\<open>e.target.files?.[0]\<close>, absent when the chooser is cancelled.\<close>

definition handleFileChange :: "File option \<Rightarrow> app_state \<Rightarrow> app_state" where
  "handleFileChange f s = (case f of None \<Rightarrow> s | Some file \<Rightarrow> processFile file s)"

definition handleDragOver :: "app_state \<Rightarrow> app_state" where
  "handleDragOver s = s\<lparr>isDragging := True\<rparr>"

definition handleDragLeave :: "app_state \<Rightarrow> app_state" where
  "handleDragLeave s = s\<lparr>isDragging := False\<rparr>"

definition handleDrop :: "File option \<Rightarrow> app_state \<Rightarrow> app_state" where
  "handleDrop f s =
     (let s1 = s\<lparr>isDragging := False\<rparr>
      in case f of None \<Rightarrow> s1 | Some file \<Rightarrow> processFile file s1)"

text \<open>The \<^verbatim>\<open>onClick\<close> of the remove button (the file input it also resets is not state).\<close>

definition removeImage :: "app_state \<Rightarrow> app_state" where
  "removeImage s = s\<lparr>originalImage := None, generatedImage := None\<rparr>"


section \<open>Style selection\<close>

definition chooseStyle :: "jsstring \<Rightarrow> app_state \<Rightarrow> app_state" where
  "chooseStyle i s = s\<lparr>selectedStyle := i\<rparr>"

definition editCustom :: "jsstring \<Rightarrow> app_state \<Rightarrow> app_state" where
  "editCustom t s = s\<lparr>customStyle := t\<rparr>"

text \<open>
  \<^verbatim>\<open>selectedStyle === 'custom' ? customStyle : PRESET_STYLES.find(...)?.prompt\<close>;
  \<open>None\<close> is \<^verbatim>\<open>undefined\<close>.
\<close>

definition promptText :: "app_state \<Rightarrow> jsstring option" where
  "promptText s =
     (if selectedStyle s = ascii ''custom'' then Some (customStyle s)
      else map_option prompt (find (\<lambda>p. id' p = selectedStyle s) PRESET_STYLES))"


section \<open>Generation\<close>

text \<open>The request handed to \<^verbatim>\<open>ai.models.generateContent\<close>.\<close>

datatype Part = InlineData "jsstring option" jsstring | Text jsstring

record request =
  model :: jsstring
  parts :: "Part list"

definition instruction :: "jsstring \<Rightarrow> jsstring" where
  "instruction p =
     ascii ''Convert this image to the following style: '' @ p @
     ascii ''. Keep the main subject and composition the same.''"

text \<open>
  \<^verbatim>\<open>handleGenerate\<close> up to the \<^verbatim>\<open>await\<close>: the new state and the request issued, if any.
\<close>

definition handleGenerate_start :: "app_state \<Rightarrow> app_state \<times> request option" where
  "handleGenerate_start s =
     (case originalImage s of
        None \<Rightarrow> (s\<lparr>error := Some MSG_UPLOAD_FIRST\<rparr>, None)
      | Some img \<Rightarrow>
          if img = [] then (s\<lparr>error := Some MSG_UPLOAD_FIRST\<rparr>, None)
          else
            (case promptText s of
               None \<Rightarrow> (s\<lparr>error := Some MSG_CHOOSE_STYLE\<rparr>, None)
             | Some p \<Rightarrow>
                 if p = [] \<or> trim p = [] then (s\<lparr>error := Some MSG_CHOOSE_STYLE\<rparr>, None)
                 else
                   (s\<lparr>isGenerating := True, error := None\<rparr>,
                    Some \<lparr>model = ascii ''gemini-2.5-flash-image'',
                          parts = [InlineData (at (split comma img) 1) (mimeType s),
                                   Text (instruction p)]\<rparr>)))"

text \<open>
  Modelled from the spec: the response type of the generative-AI client library, which is
  outside the repository. The spec gives its shape: "a list of candidates, each with
  content composed of parts", a part carrying an inline-image payload
  \<^verbatim>\<open>{ data: <base64>, mimeType?: <string> }\<close> or not. The response is what the service
  sent: a candidate can come without \<^verbatim>\<open>content\<close> (a generation that was blocked has a
  finish reason only), and a content without \<^verbatim>\<open>parts\<close>, as \<^verbatim>\<open>candidates\<close> can be
  missing.
\<close>

record Blob =
  inline_data :: jsstring
  inline_mimeType :: "jsstring option"

record ResponsePart =
  inlineData :: "Blob option"
  part_text :: "jsstring option"

record Content =
  content_parts :: "ResponsePart list option"

record Candidate =
  content :: "Content option"

record Response =
  candidates :: "Candidate list option"

text \<open>
  How the \<^verbatim>\<open>try\<close> block gets past its \<^verbatim>\<open>await\<close>: with a response, or not at all
  because the client's constructor or the call threw; what is thrown is an object whose
  \<^verbatim>\<open>message\<close> property is a string or missing.
\<close>

datatype outcome = Resolved Response | Rejected "jsstring option"

definition imgUrl :: "Blob \<Rightarrow> jsstring" where
  "imgUrl b =
     ascii ''data:'' @ or_else (inline_mimeType b) (ascii ''image/png'') @
     ascii '';base64,'' @ inline_data b"

text \<open>The \<^verbatim>\<open>for\<close> loop with its \<^verbatim>\<open>break\<close>: the URL of the first part with inline data.\<close>

fun scan_parts :: "ResponsePart list \<Rightarrow> jsstring option" where
  "scan_parts [] = None"
| "scan_parts (p # ps) =
     (case inlineData p of
        Some b \<Rightarrow> Some (imgUrl b)
      | None \<Rightarrow> scan_parts ps)"

text \<open>
  \<^verbatim>\<open>response.candidates[0].content.parts\<close> is read without a guard. The JavaScript engine
  throws a \<^verbatim>\<open>TypeError\<close> when \<^verbatim>\<open>content\<close> is undefined (a property of undefined is
  read) and when \<^verbatim>\<open>parts\<close> is undefined (\<^verbatim>\<open>for ... of\<close> over undefined). The wording
  of the two messages is the engine's, not the repository's, so it is a parameter.
\<close>

record runtime =
  msg_property_of_undefined :: jsstring
  msg_not_iterable :: jsstring

text \<open>
  The \<^verbatim>\<open>try\<close> body after the \<^verbatim>\<open>await\<close>: \<open>Inr\<close> the state after
  \<^verbatim>\<open>setGeneratedImage\<close>, \<open>Inl\<close> the \<^verbatim>\<open>message\<close> of what is thrown (by the awaited
  call, by the engine, or by the \<^verbatim>\<open>throw\<close> of the source when no image was found).
\<close>

definition try_body :: "runtime \<Rightarrow> outcome \<Rightarrow> app_state \<Rightarrow> jsstring option + app_state" where
  "try_body rt out s =
     (case out of
        Rejected m \<Rightarrow> Inl m
      | Resolved response \<Rightarrow>
          (case candidates response of
             None \<Rightarrow> Inl (Some MSG_NO_RESULT)
           | Some [] \<Rightarrow> Inl (Some MSG_NO_RESULT)
           | Some (c # _) \<Rightarrow>
               (case content c of
                  None \<Rightarrow> Inl (Some (msg_property_of_undefined rt))
                | Some ct \<Rightarrow>
                    (case content_parts ct of
                       None \<Rightarrow> Inl (Some (msg_not_iterable rt))
                     | Some ps \<Rightarrow>
                         (case scan_parts ps of
                            Some url \<Rightarrow> Inr (s\<lparr>generatedImage := Some url\<rparr>)
                          | None \<Rightarrow> Inl (Some MSG_NO_RESULT))))))"

text \<open>\<^verbatim>\<open>handleGenerate\<close> from the \<^verbatim>\<open>await\<close> on: \<^verbatim>\<open>try\<close>, \<^verbatim>\<open>catch\<close>, \<^verbatim>\<open>finally\<close>.\<close>

definition handleGenerate_settle :: "runtime \<Rightarrow> outcome \<Rightarrow> app_state \<Rightarrow> app_state" where
  "handleGenerate_settle rt out s =
     (let s1 = (case try_body rt out s of
                  Inr s' \<Rightarrow> s'
                | Inl m \<Rightarrow> s\<lparr>error := Some (or_else m MSG_GENERIC)\<rparr>)
      in s1\<lparr>isGenerating := False\<rparr>)"

text \<open>
  \<^verbatim>\<open>handleGenerate\<close> as a whole, when nothing else touches the state while the call is
  awaited: the handler returns at once if it issues no request.
\<close>

definition handleGenerate :: "runtime \<Rightarrow> outcome \<Rightarrow> app_state \<Rightarrow> app_state" where
  "handleGenerate rt out s =
     (case handleGenerate_start s of
        (s1, None) \<Rightarrow> s1
      | (s1, Some req) \<Rightarrow> handleGenerate_settle rt out s1)"

text \<open>The \<^verbatim>\<open>disabled\<close> attribute of the generate button.\<close>

definition generate_disabled :: "app_state \<Rightarrow> bool" where
  "generate_disabled s =
     (falsy (originalImage s) \<or> isGenerating s \<or>
      (selectedStyle s = ascii ''custom'' \<and> trim (customStyle s) = []))"


section \<open>Events\<close>

text \<open>
  What can happen to the state: the user's gestures and the completion of a generation
  call. A preset card exists for each index of the catalog; a disabled button does not
  fire; a call completes only while one is in flight.
\<close>

datatype event =
    FileChange "File option"
  | DragOver
  | DragLeave
  | Drop "File option"
  | RemoveImage
  | ChoosePreset nat
  | ChooseCustom
  | EditCustom jsstring
  | ClickGenerate
  | Settled outcome

fun step :: "runtime \<Rightarrow> app_state \<Rightarrow> event \<Rightarrow> app_state" where
  "step rt s (FileChange f) = handleFileChange f s"
| "step rt s DragOver = handleDragOver s"
| "step rt s DragLeave = handleDragLeave s"
| "step rt s (Drop f) = handleDrop f s"
| "step rt s RemoveImage = removeImage s"
| "step rt s (ChoosePreset i) =
     (case at PRESET_STYLES i of None \<Rightarrow> s | Some p \<Rightarrow> chooseStyle (id' p) s)"
| "step rt s ChooseCustom = chooseStyle (ascii ''custom'') s"
| "step rt s (EditCustom t) = editCustom t s"
| "step rt s ClickGenerate = (if generate_disabled s then s else fst (handleGenerate_start s))"
| "step rt s (Settled out) = (if isGenerating s then handleGenerate_settle rt out s else s)"

definition run :: "runtime \<Rightarrow> event list \<Rightarrow> app_state" where
  "run rt evs = foldl (step rt) initial_state evs"

text \<open>The events that load an image: a chosen or dropped file of an image type.\<close>

fun loads_image :: "event \<Rightarrow> bool" where
  "loads_image (FileChange (Some file)) = startsWith (type file) (ascii ''image/'')"
| "loads_image (Drop (Some file)) = startsWith (type file) (ascii ''image/'')"
| "loads_image _ = False"

text \<open>
  A media type has no comma in it, and neither has base64 text. \<open>comma_free\<close> holds of
  an event unless it brings a file that breaks this.
\<close>

fun comma_free :: "event \<Rightarrow> bool" where
  "comma_free (FileChange (Some file)) = (comma \<notin> set (type file) \<and> comma \<notin> set (base64 file))"
| "comma_free (Drop (Some file)) = (comma \<notin> set (type file) \<and> comma \<notin> set (base64 file))"
| "comma_free _ = True"



section \<open>The specification's wording, and sample inputs\<close>

text \<open>
  The data-URI as the specification words it: the part's declared media type, with
  \<^verbatim>\<open>image/png\<close> when the part omits one. To be compared with \<open>imgUrl\<close>.
\<close>

definition spec_data_uri :: "Blob \<Rightarrow> jsstring" where
  "spec_data_uri b =
     ascii ''data:'' @ (case inline_mimeType b of None \<Rightarrow> ascii ''image/png'' | Some m \<Rightarrow> m) @
     ascii '';base64,'' @ inline_data b"

text \<open>A runtime with the wording of V8 for the two messages.\<close>

definition sample_runtime :: runtime where
  "sample_runtime =
    \<lparr>msg_property_of_undefined =
       ascii ''Cannot read properties of undefined (reading '' @ [0x0027] @ ascii ''parts'' @
       [0x0027] @ ascii '')'',
     msg_not_iterable = ascii ''response.candidates[0].content.parts is not iterable''\<rparr>"

text \<open>A response whose only candidate was blocked: a finish reason and no content.\<close>

definition blocked_response :: Response where
  "blocked_response = \<lparr>candidates = Some [\<lparr>content = None\<rparr>]\<rparr>"

text \<open>An image loaded, the custom style selected, its text \<^verbatim>\<open>oil\<close>.\<close>

definition custom_state :: app_state where
  "custom_state = initial_state
     \<lparr>originalImage := Some (ascii ''data:image/png;base64,AAAA''),
      mimeType := ascii ''image/png'',
      selectedStyle := ascii ''custom'',
      customStyle := ascii ''oil''\<rparr>"

definition png_file :: File where
  "png_file = \<lparr>type = ascii ''image/png'', base64 = ascii ''AAAA''\<rparr>"

text \<open>An image loaded and the preset \<^verbatim>\<open>sketch\<close> selected.\<close>

definition sketch_state :: app_state where
  "sketch_state = initial_state
     \<lparr>originalImage := Some (ascii ''data:image/png;base64,AAAA''),
      mimeType := ascii ''image/png'',
      selectedStyle := ascii ''sketch''\<rparr>"

text \<open>An image loaded, the custom style selected, its text three spaces.\<close>

definition blank_custom_state :: app_state where
  "blank_custom_state = initial_state
     \<lparr>originalImage := Some (ascii ''data:image/png;base64,AAAA''),
      mimeType := ascii ''image/png'',
      selectedStyle := ascii ''custom'',
      customStyle := ascii ''   ''\<rparr>"

text \<open>An image loaded and a result generated from it.\<close>

definition styled_state :: app_state where
  "styled_state = initial_state
     \<lparr>originalImage := Some (ascii ''data:image/png;base64,AAAA''),
      mimeType := ascii ''image/png'',
      generatedImage := Some (ascii ''data:image/png;base64,ZZZZ'')\<rparr>"

text \<open>An image loaded and a style identifier that is neither a preset nor \<^verbatim>\<open>custom\<close>.\<close>

definition oil_state :: app_state where
  "oil_state = initial_state
     \<lparr>originalImage := Some (ascii ''data:image/png;base64,AAAA''),
      mimeType := ascii ''image/png'',
      selectedStyle := ascii ''oil''\<rparr>"


section \<open>Strings and the catalog\<close>

lemma dropWhile_all: "(\<forall>x \<in> set (dropWhile P xs). P x) \<longleftrightarrow> (\<forall>x \<in> set xs. P x)"
  by (induction xs) auto

lemma trim_empty_iff: "trim s = [] \<longleftrightarrow> list_all isWhiteSpace s"
  by (simp add: trim_def dropWhile_all list_all_iff)

lemma split_no_sep: "sep \<notin> set s \<Longrightarrow> split sep s = [s]"
  by (induction s) auto

lemma split_first_sep: "sep \<notin> set a \<Longrightarrow> split sep (a @ sep # b) = a # split sep b"
  by (induction a) auto

lemma at_split_data_uri:
  "comma \<notin> set hdr \<Longrightarrow> comma \<notin> set payload \<Longrightarrow> at (split comma (hdr @ comma # payload)) 1 = Some payload"
  by (simp add: split_first_sep split_no_sep at_def)

lemma scan_parts_first:
  "\<forall>q \<in> set pre. inlineData q = None \<Longrightarrow> inlineData p = Some b \<Longrightarrow>
   scan_parts (pre @ p # post) = Some (imgUrl b)"
  by (induction pre) auto

lemma scan_parts_none: "scan_parts ps = None \<longleftrightarrow> (\<forall>q \<in> set ps. inlineData q = None)"
  by (induction ps) (auto split: option.splits)

lemma custom_not_preset: "ascii ''custom'' \<notin> id' ` set PRESET_STYLES"
  by (simp add: PRESET_STYLES_def ascii_def)

lemma distinct_ids: "distinct (map id' PRESET_STYLES)"
  by (simp add: PRESET_STYLES_def ascii_def)


lemma find_distinct_key:
  "distinct (map f xs) \<Longrightarrow> p \<in> set xs \<Longrightarrow> find (\<lambda>q. f q = f p) xs = Some p"
  by (induction xs) (auto simp: image_iff)

lemma find_preset: "p \<in> set PRESET_STYLES \<Longrightarrow> find (\<lambda>q. id' q = id' p) PRESET_STYLES = Some p"
  by (rule find_distinct_key [OF distinct_ids])

lemma find_none: "i \<notin> id' ` set PRESET_STYLES \<Longrightarrow> find (\<lambda>q. id' q = i) PRESET_STYLES = None"
  by (auto simp: find_None_iff)

lemma trim_nonblank: "\<not> isWhiteSpace c \<Longrightarrow> trim (c # cs) \<noteq> []"
  by (simp add: trim_empty_iff)

lemma prompts_not_blank_all: "list_all (\<lambda>p. trim (prompt p) \<noteq> []) PRESET_STYLES"
  by (simp add: PRESET_STYLES_def ascii_def trim_nonblank isWhiteSpace_def)

lemma prompts_not_blank: "p \<in> set PRESET_STYLES \<Longrightarrow> prompt p \<noteq> [] \<and> trim (prompt p) \<noteq> []"
  using prompts_not_blank_all by (auto simp: list_all_iff trim_def)


section \<open>Facts about the handlers\<close>

lemma promptText_custom: "selectedStyle s = ascii ''custom'' \<Longrightarrow> promptText s = Some (customStyle s)"
  by (simp add: promptText_def)

lemma promptText_preset:
  "selectedStyle s \<noteq> ascii ''custom'' \<Longrightarrow> promptText s = Some p \<Longrightarrow>
   \<exists>e \<in> set PRESET_STYLES. id' e = selectedStyle s \<and> p = prompt e"
  by (auto simp: promptText_def find_Some_iff)

lemma start_request:
  "handleGenerate_start s = (s', Some req) \<Longrightarrow>
   \<exists>img p. originalImage s = Some img \<and> img \<noteq> [] \<and> promptText s = Some p \<and> trim p \<noteq> [] \<and>
     s' = s\<lparr>isGenerating := True, error := None\<rparr> \<and>
     req = \<lparr>model = ascii ''gemini-2.5-flash-image'',
            parts = [InlineData (at (split comma img) 1) (mimeType s), Text (instruction p)]\<rparr>"
  by (auto simp: handleGenerate_start_def split: option.splits if_splits)

lemma promptText_of_preset:
  assumes "e \<in> set PRESET_STYLES" and "selectedStyle s = id' e"
  shows "promptText s = Some (prompt e)"
proof -
  have "selectedStyle s \<noteq> ascii ''custom''"
    using assms custom_not_preset by force
  then show ?thesis
    using assms by (simp add: promptText_def find_preset)
qed

lemma start_no_image:
  "originalImage s = None \<or> originalImage s = Some [] \<Longrightarrow>
   handleGenerate_start s = (s\<lparr>error := Some MSG_UPLOAD_FIRST\<rparr>, None)"
  by (auto simp: handleGenerate_start_def)

lemma start_no_prompt:
  "originalImage s = Some img \<Longrightarrow> img \<noteq> [] \<Longrightarrow>
   promptText s = None \<or> (\<exists>p. promptText s = Some p \<and> trim p = []) \<Longrightarrow>
   handleGenerate_start s = (s\<lparr>error := Some MSG_CHOOSE_STYLE\<rparr>, None)"
  by (auto simp: handleGenerate_start_def)

lemma start_issues:
  "originalImage s = Some img \<Longrightarrow> img \<noteq> [] \<Longrightarrow> promptText s = Some p \<Longrightarrow> trim p \<noteq> [] \<Longrightarrow>
   handleGenerate_start s =
     (s\<lparr>isGenerating := True, error := None\<rparr>,
      Some \<lparr>model = ascii ''gemini-2.5-flash-image'',
            parts = [InlineData (at (split comma img) 1) (mimeType s), Text (instruction p)]\<rparr>)"
  by (auto simp: handleGenerate_start_def trim_def)

lemma settle_found:
  "candidates response = Some (c # cs) \<Longrightarrow> content c = Some ct \<Longrightarrow>
   content_parts ct = Some ps \<Longrightarrow> scan_parts ps = Some url \<Longrightarrow>
   handleGenerate_settle rt (Resolved response) s =
     s\<lparr>generatedImage := Some url, isGenerating := False\<rparr>"
  by (simp add: handleGenerate_settle_def try_body_def)

lemma settle_not_found:
  "candidates response = None \<or> candidates response = Some [] \<or>
     (\<exists>c cs ct ps. candidates response = Some (c # cs) \<and> content c = Some ct \<and>
        content_parts ct = Some ps \<and> scan_parts ps = None) \<Longrightarrow>
   handleGenerate_settle rt (Resolved response) s =
     s\<lparr>error := Some MSG_NO_RESULT, isGenerating := False\<rparr>"
  by (auto simp: handleGenerate_settle_def try_body_def or_else_def MSG_NO_RESULT_def)

lemma settle_no_content:
  "candidates response = Some (c # cs) \<Longrightarrow> content c = None \<Longrightarrow>
   handleGenerate_settle rt (Resolved response) s =
     s\<lparr>error := Some (or_else (Some (msg_property_of_undefined rt)) MSG_GENERIC),
       isGenerating := False\<rparr>"
  by (simp add: handleGenerate_settle_def try_body_def)

lemma settle_no_parts:
  "candidates response = Some (c # cs) \<Longrightarrow> content c = Some ct \<Longrightarrow>
   content_parts ct = None \<Longrightarrow>
   handleGenerate_settle rt (Resolved response) s =
     s\<lparr>error := Some (or_else (Some (msg_not_iterable rt)) MSG_GENERIC),
       isGenerating := False\<rparr>"
  by (simp add: handleGenerate_settle_def try_body_def)

lemma settle_rejected:
  "handleGenerate_settle rt (Rejected m) s =
     s\<lparr>error := Some (or_else m MSG_GENERIC), isGenerating := False\<rparr>"
  by (simp add: handleGenerate_settle_def try_body_def)

lemma settle_not_generating: "\<not> isGenerating (handleGenerate_settle rt out s)"
  by (simp add: handleGenerate_settle_def Let_def)

lemma settle_failure_keeps_result:
  "try_body rt out s = Inl m \<Longrightarrow>
   handleGenerate_settle rt out s = s\<lparr>error := Some (or_else m MSG_GENERIC), isGenerating := False\<rparr>"
  by (simp add: handleGenerate_settle_def)

lemma handleGenerate_issued:
  "handleGenerate_start s = (s1, Some req) \<Longrightarrow>
   handleGenerate rt out s = handleGenerate_settle rt out (s\<lparr>isGenerating := True, error := None\<rparr>)"
  using start_request [of s s1 req] by (auto simp: handleGenerate_def)

lemma handleGenerate_ends_idle:
  "handleGenerate_start s = (s1, Some req) \<Longrightarrow> \<not> isGenerating (handleGenerate rt out s)"
  by (simp add: handleGenerate_issued settle_not_generating)

lemma start_fst_fields:
  "originalImage (fst (handleGenerate_start s)) = originalImage s \<and>
   mimeType (fst (handleGenerate_start s)) = mimeType s \<and>
   generatedImage (fst (handleGenerate_start s)) = generatedImage s"
  by (simp add: handleGenerate_start_def split: option.splits)

lemma settle_fields:
  "originalImage (handleGenerate_settle rt out s) = originalImage s \<and>
   mimeType (handleGenerate_settle rt out s) = mimeType s"
  by (simp add: handleGenerate_settle_def try_body_def split: outcome.splits option.splits list.splits sum.splits)

lemma processFile_rejects:
  "\<not> startsWith (type file) (ascii ''image/'') \<Longrightarrow> processFile file s = s\<lparr>error := Some MSG_NOT_AN_IMAGE\<rparr>"
  by (simp add: processFile_def)

lemma processFile_loads:
  "startsWith (type file) (ascii ''image/'') \<Longrightarrow>
   processFile file s =
     s\<lparr>originalImage := Some (readAsDataURL file), mimeType := type file,
       generatedImage := None, error := None\<rparr>"
  by (simp add: processFile_def reader_onload_def)

lemma step_keeps_mimeType: "\<not> loads_image e \<Longrightarrow> mimeType (step rt s e) = mimeType s"
proof (cases e)
  case (FileChange f)
  assume "\<not> loads_image e"
  with FileChange show ?thesis
    by (cases f) (simp_all add: handleFileChange_def processFile_rejects)
next
  case (Drop f)
  assume "\<not> loads_image e"
  with Drop show ?thesis
    by (cases f) (simp_all add: handleDrop_def processFile_rejects)
next
  case (ChoosePreset i)
  then show ?thesis by (simp add: chooseStyle_def split: option.splits)
qed (simp_all add: handleDragOver_def handleDragLeave_def removeImage_def chooseStyle_def
      editCustom_def start_fst_fields settle_fields)

lemma foldl_keeps_mimeType:
  "\<forall>e \<in> set evs. \<not> loads_image e \<Longrightarrow> mimeType (foldl (step rt) s evs) = mimeType s"
  by (induction evs arbitrary: s) (simp_all add: step_keeps_mimeType)

lemma start_ignores_custom:
  assumes "selectedStyle s \<noteq> ascii ''custom''"
  shows "snd (handleGenerate_start (s\<lparr>customStyle := a\<rparr>)) = snd (handleGenerate_start (s\<lparr>customStyle := b\<rparr>)) \<and>
     fst (handleGenerate_start (s\<lparr>customStyle := a\<rparr>)) = (fst (handleGenerate_start (s\<lparr>customStyle := b\<rparr>)))\<lparr>customStyle := a\<rparr>"
  using assms by (simp add: handleGenerate_start_def promptText_def split: option.splits)



section \<open>Response extraction\<close>

text \<open>
  C1, as the code has it. When the response has at least one candidate and the parts of
  the first candidate's content are \<open>pre @ p # post\<close>, where no part of \<open>pre\<close> carries inline
  data and \<open>p\<close> carries the payload \<open>b\<close>, the generated image becomes the data-URI of
  \<open>b\<close>: \<^verbatim>\<open>data:\<close>, the media type of \<open>b\<close> (\<^verbatim>\<open>image/png\<close> when \<open>b\<close> has none or an
  empty one), \<^verbatim>\<open>;base64,\<close> and the payload. Neither \<open>post\<close> nor the later candidates
  \<open>cs\<close> occur in the result; nothing else changes but \<open>isGenerating\<close>.
\<close>

theorem first_inline_part_is_result:
  assumes "candidates response = Some (c # cs)"
    and "content c = Some ct"
    and "content_parts ct = Some (pre @ p # post)"
    and "\<forall>q \<in> set pre. inlineData q = None"
    and "inlineData p = Some b"
  shows "handleGenerate_settle rt (Resolved response) s =
     s\<lparr>generatedImage :=
          Some (ascii ''data:'' @
                (case inline_mimeType b of
                   None \<Rightarrow> ascii ''image/png''
                 | Some m \<Rightarrow> if m = [] then ascii ''image/png'' else m) @
                ascii '';base64,'' @ inline_data b),
       isGenerating := False\<rparr>"
proof -
  have "scan_parts (pre @ p # post) = Some (imgUrl b)"
    using assms(4,5) by (simp add: scan_parts_first)
  then show ?thesis
    using assms(1-3) by (simp add: settle_found imgUrl_def or_else_def)
qed

theorem first_inline_part_is_result_witness:
  "handleGenerate_settle sample_runtime
     (Resolved \<lparr>candidates = Some [\<lparr>content = Some \<lparr>content_parts = Some
        [\<lparr>inlineData = None, part_text = Some (ascii ''ok'')\<rparr>,
         \<lparr>inlineData = Some \<lparr>inline_data = ascii ''BBBB'', inline_mimeType = None\<rparr>, part_text = None\<rparr>,
         \<lparr>inlineData = Some \<lparr>inline_data = ascii ''CCCC'', inline_mimeType = Some (ascii ''image/jpeg'')\<rparr>,
          part_text = None\<rparr>]\<rparr>\<rparr>]\<rparr>)
     initial_state
   = initial_state\<lparr>generatedImage := Some (ascii ''data:image/png;base64,BBBB''), isGenerating := False\<rparr>"
  using first_inline_part_is_result
    [of "\<lparr>candidates = Some [\<lparr>content = Some \<lparr>content_parts = Some
        [\<lparr>inlineData = None, part_text = Some (ascii ''ok'')\<rparr>,
         \<lparr>inlineData = Some \<lparr>inline_data = ascii ''BBBB'', inline_mimeType = None\<rparr>, part_text = None\<rparr>,
         \<lparr>inlineData = Some \<lparr>inline_data = ascii ''CCCC'', inline_mimeType = Some (ascii ''image/jpeg'')\<rparr>,
          part_text = None\<rparr>]\<rparr>\<rparr>]\<rparr>"
        "\<lparr>content = Some \<lparr>content_parts = Some
        [\<lparr>inlineData = None, part_text = Some (ascii ''ok'')\<rparr>,
         \<lparr>inlineData = Some \<lparr>inline_data = ascii ''BBBB'', inline_mimeType = None\<rparr>, part_text = None\<rparr>,
         \<lparr>inlineData = Some \<lparr>inline_data = ascii ''CCCC'', inline_mimeType = Some (ascii ''image/jpeg'')\<rparr>,
          part_text = None\<rparr>]\<rparr>\<rparr>"
        "[]"
        "\<lparr>content_parts = Some
        [\<lparr>inlineData = None, part_text = Some (ascii ''ok'')\<rparr>,
         \<lparr>inlineData = Some \<lparr>inline_data = ascii ''BBBB'', inline_mimeType = None\<rparr>, part_text = None\<rparr>,
         \<lparr>inlineData = Some \<lparr>inline_data = ascii ''CCCC'', inline_mimeType = Some (ascii ''image/jpeg'')\<rparr>,
          part_text = None\<rparr>]\<rparr>"
        "[\<lparr>inlineData = None, part_text = Some (ascii ''ok'')\<rparr>]"
        "\<lparr>inlineData = Some \<lparr>inline_data = ascii ''BBBB'', inline_mimeType = None\<rparr>, part_text = None\<rparr>"
        "[\<lparr>inlineData = Some \<lparr>inline_data = ascii ''CCCC'', inline_mimeType = Some (ascii ''image/jpeg'')\<rparr>,
          part_text = None\<rparr>]"
        "\<lparr>inline_data = ascii ''BBBB'', inline_mimeType = None\<rparr>"
        sample_runtime
        initial_state]
  by (simp add: ascii_def)

text \<open>
  C1 as worded takes the declared media type whenever the part has one. A part that
  declares the empty string gets \<^verbatim>\<open>image/png\<close> from the code's \<^verbatim>\<open>||\<close>, not the empty
  media type.
\<close>

theorem empty_media_type_counterexample:
  "generatedImage
     (handleGenerate_settle sample_runtime
        (Resolved \<lparr>candidates = Some [\<lparr>content = Some \<lparr>content_parts = Some
           [\<lparr>inlineData = Some \<lparr>inline_data = ascii ''BBBB'', inline_mimeType = Some []\<rparr>,
             part_text = None\<rparr>]\<rparr>\<rparr>]\<rparr>)
        initial_state)
     = Some (ascii ''data:image/png;base64,BBBB'') \<and>
   spec_data_uri \<lparr>inline_data = ascii ''BBBB'', inline_mimeType = Some []\<rparr> = ascii ''data:;base64,BBBB'' \<and>
   generatedImage
     (handleGenerate_settle sample_runtime
        (Resolved \<lparr>candidates = Some [\<lparr>content = Some \<lparr>content_parts = Some
           [\<lparr>inlineData = Some \<lparr>inline_data = ascii ''BBBB'', inline_mimeType = Some []\<rparr>,
             part_text = None\<rparr>]\<rparr>\<rparr>]\<rparr>)
        initial_state)
     \<noteq> Some (spec_data_uri \<lparr>inline_data = ascii ''BBBB'', inline_mimeType = Some []\<rparr>)"
  by (simp add: handleGenerate_settle_def try_body_def imgUrl_def or_else_def spec_data_uri_def ascii_def)


section \<open>Request construction\<close>

text \<open>
  Files whose media type and base64 text have no comma give data-URIs with exactly one:
  every state reached through such files holds no image, or a header without comma, the
  comma, and a payload without comma.
\<close>

lemma readAsDataURL_one_comma:
  "readAsDataURL file = (ascii ''data:'' @ type file @ ascii '';base64'') @ comma # base64 file"
  by (simp add: readAsDataURL_def ascii_def comma_def)

lemma processFile_one_comma:
  assumes "comma \<notin> set (type file)" and "comma \<notin> set (base64 file)"
    and "originalImage s = None \<or>
       (\<exists>hdr payload. originalImage s = Some (hdr @ comma # payload) \<and>
          comma \<notin> set hdr \<and> comma \<notin> set payload)"
  shows "originalImage (processFile file s) = None \<or>
     (\<exists>hdr payload. originalImage (processFile file s) = Some (hdr @ comma # payload) \<and>
        comma \<notin> set hdr \<and> comma \<notin> set payload)"
proof (cases "startsWith (type file) (ascii ''image/'')")
  case True
  define hdr where "hdr = ascii ''data:'' @ type file @ ascii '';base64''"
  have url: "readAsDataURL file = hdr @ comma # base64 file"
    unfolding hdr_def by (rule readAsDataURL_one_comma)
  have hdr: "comma \<notin> set hdr"
    unfolding hdr_def using assms(1) by (simp add: ascii_def comma_def)
  have "originalImage (processFile file s) = Some (hdr @ comma # base64 file)"
    using True url by (simp add: processFile_loads)
  then show ?thesis
    using hdr assms(2) by blast
next
  case False
  then show ?thesis
    using assms(3) by (simp add: processFile_rejects)
qed

lemma step_one_comma:
  assumes "comma_free e"
    and "originalImage s = None \<or>
       (\<exists>hdr payload. originalImage s = Some (hdr @ comma # payload) \<and>
          comma \<notin> set hdr \<and> comma \<notin> set payload)"
  shows "originalImage (step rt s e) = None \<or>
     (\<exists>hdr payload. originalImage (step rt s e) = Some (hdr @ comma # payload) \<and>
        comma \<notin> set hdr \<and> comma \<notin> set payload)"
proof (cases e)
  case (FileChange f)
  show ?thesis
  proof (cases f)
    case None
    with FileChange assms(2) show ?thesis by (simp add: handleFileChange_def)
  next
    case (Some fl)
    with FileChange assms show ?thesis
      using processFile_one_comma [of fl s] by (simp add: handleFileChange_def)
  qed
next
  case (Drop f)
  show ?thesis
  proof (cases f)
    case None
    with Drop assms(2) show ?thesis by (simp add: handleDrop_def)
  next
    case (Some fl)
    with Drop assms show ?thesis
      using processFile_one_comma [of fl "s\<lparr>isDragging := False\<rparr>"]
      by (simp add: handleDrop_def)
  qed
next
  case (ChoosePreset i)
  with assms(2) show ?thesis by (simp add: chooseStyle_def split: option.splits)
qed (use assms(2) in \<open>simp_all add: handleDragOver_def handleDragLeave_def removeImage_def
      chooseStyle_def editCustom_def start_fst_fields settle_fields\<close>)

lemma foldl_one_comma:
  "\<forall>e \<in> set evs. comma_free e \<Longrightarrow>
   originalImage s = None \<or>
     (\<exists>hdr payload. originalImage s = Some (hdr @ comma # payload) \<and>
        comma \<notin> set hdr \<and> comma \<notin> set payload) \<Longrightarrow>
   originalImage (foldl (step rt) s evs) = None \<or>
     (\<exists>hdr payload. originalImage (foldl (step rt) s evs) = Some (hdr @ comma # payload) \<and>
        comma \<notin> set hdr \<and> comma \<notin> set payload)"
proof (induction evs arbitrary: s)
  case Nil
  then show ?case by simp
next
  case (Cons e evs)
  have "originalImage (step rt s e) = None \<or>
     (\<exists>hdr payload. originalImage (step rt s e) = Some (hdr @ comma # payload) \<and>
        comma \<notin> set hdr \<and> comma \<notin> set payload)"
    using Cons.prems by (intro step_one_comma) simp_all
  then show ?case
    using Cons.IH [of "step rt s e"] Cons.prems(1) by simp
qed

lemma reachable_image_one_comma:
  "\<forall>e \<in> set evs. comma_free e \<Longrightarrow>
   originalImage (run rt evs) = None \<or>
     (\<exists>hdr payload. originalImage (run rt evs) = Some (hdr @ comma # payload) \<and>
        comma \<notin> set hdr \<and> comma \<notin> set payload)"
  unfolding run_def by (rule foldl_one_comma) (simp_all add: initial_state_def)

text \<open>
  C2. Let \<open>originalImage\<close> be a data-URI: a header without comma, the comma, a base64
  payload (which has no comma). The trigger reaches the request stage in two cases: when
  \<open>selectedStyle\<close> is \<^verbatim>\<open>custom\<close> and \<open>customStyle\<close> is not blank, and when \<open>selectedStyle\<close>
  is the id of a catalog entry; these are the only ones. In both it sets \<open>isGenerating\<close>,
  clears \<open>error\<close> and issues one request, which names the model
  \<^verbatim>\<open>gemini-2.5-flash-image\<close> and has exactly two parts, in this order: the inline data,
  made of the payload after the comma and \<open>mimeType\<close>, and the text
  \<^verbatim>\<open>Convert this image to the following style: <pt>. Keep the main subject and composition the same.\<close>
  where \<open>pt\<close> is \<open>customStyle\<close> verbatim in the first case and the prompt of that catalog
  entry in the second.
\<close>

theorem request_is_image_then_instruction:
  assumes "originalImage s = Some (hdr @ comma # payload)"
    and "comma \<notin> set hdr" and "comma \<notin> set payload"
  shows "(selectedStyle s = ascii ''custom'' \<and> trim (customStyle s) \<noteq> [] \<longrightarrow>
      handleGenerate_start s =
        (s\<lparr>isGenerating := True, error := None\<rparr>,
         Some \<lparr>model = ascii ''gemini-2.5-flash-image'',
               parts =
                 [InlineData (Some payload) (mimeType s),
                  Text (ascii ''Convert this image to the following style: '' @ customStyle s @
                        ascii ''. Keep the main subject and composition the same.'')]\<rparr>)) \<and>
     (\<forall>e \<in> set PRESET_STYLES. selectedStyle s = id' e \<longrightarrow>
      handleGenerate_start s =
        (s\<lparr>isGenerating := True, error := None\<rparr>,
         Some \<lparr>model = ascii ''gemini-2.5-flash-image'',
               parts =
                 [InlineData (Some payload) (mimeType s),
                  Text (ascii ''Convert this image to the following style: '' @ prompt e @
                        ascii ''. Keep the main subject and composition the same.'')]\<rparr>)) \<and>
     (snd (handleGenerate_start s) \<noteq> None \<longrightarrow>
        (selectedStyle s = ascii ''custom'' \<and> trim (customStyle s) \<noteq> []) \<or>
        selectedStyle s \<in> id' ` set PRESET_STYLES)"
proof (intro conjI ballI impI)
  have img: "hdr @ comma # payload \<noteq> []"
    by simp
  have data: "at (split comma (hdr @ comma # payload)) 1 = Some payload"
    using assms(2,3) by (rule at_split_data_uri)
  {
    assume c: "selectedStyle s = ascii ''custom'' \<and> trim (customStyle s) \<noteq> []"
    then have "promptText s = Some (customStyle s)"
      by (simp add: promptText_custom)
    from start_issues [OF assms(1) img this] c data
    show "handleGenerate_start s =
        (s\<lparr>isGenerating := True, error := None\<rparr>,
         Some \<lparr>model = ascii ''gemini-2.5-flash-image'',
               parts =
                 [InlineData (Some payload) (mimeType s),
                  Text (ascii ''Convert this image to the following style: '' @ customStyle s @
                        ascii ''. Keep the main subject and composition the same.'')]\<rparr>)"
      by (simp add: instruction_def)
  }
  {
    fix e
    assume e: "e \<in> set PRESET_STYLES" and sel: "selectedStyle s = id' e"
    have p: "promptText s = Some (prompt e)"
      using e sel by (rule promptText_of_preset)
    have "trim (prompt e) \<noteq> []"
      using e prompts_not_blank by blast
    from start_issues [OF assms(1) img p this] data
    show "handleGenerate_start s =
        (s\<lparr>isGenerating := True, error := None\<rparr>,
         Some \<lparr>model = ascii ''gemini-2.5-flash-image'',
               parts =
                 [InlineData (Some payload) (mimeType s),
                  Text (ascii ''Convert this image to the following style: '' @ prompt e @
                        ascii ''. Keep the main subject and composition the same.'')]\<rparr>)"
      by (simp add: instruction_def)
  }
  {
    assume "snd (handleGenerate_start s) \<noteq> None"
    then obtain s' req where "handleGenerate_start s = (s', Some req)"
      by (cases "handleGenerate_start s") auto
    from start_request [OF this] obtain p where p: "promptText s = Some p" "trim p \<noteq> []"
      by blast
    show "(selectedStyle s = ascii ''custom'' \<and> trim (customStyle s) \<noteq> []) \<or>
        selectedStyle s \<in> id' ` set PRESET_STYLES"
    proof (cases "selectedStyle s = ascii ''custom''")
      case True
      with p show ?thesis by (simp add: promptText_custom)
    next
      case False
      from promptText_preset [OF False p(1)] show ?thesis by force
    qed
  }
qed

theorem request_is_image_then_instruction_witness:
  "handleGenerate_start custom_state =
     (custom_state\<lparr>isGenerating := True, error := None\<rparr>,
      Some \<lparr>model = ascii ''gemini-2.5-flash-image'',
            parts =
              [InlineData (Some (ascii ''AAAA'')) (ascii ''image/png''),
               Text (ascii ''Convert this image to the following style: oil. Keep the main subject and composition the same.'')]\<rparr>) \<and>
   handleGenerate_start sketch_state =
     (sketch_state\<lparr>isGenerating := True, error := None\<rparr>,
      Some \<lparr>model = ascii ''gemini-2.5-flash-image'',
            parts =
              [InlineData (Some (ascii ''AAAA'')) (ascii ''image/png''),
               Text (ascii ''Convert this image to the following style: Pencil sketch style, detailed, black and white, hand-drawn. Keep the main subject and composition the same.'')]\<rparr>)"
proof -
  have h1: "comma \<notin> set (ascii ''data:image/png;base64'')"
    by (simp add: ascii_def comma_def)
  have h2: "comma \<notin> set (ascii ''AAAA'')"
    by (simp add: ascii_def comma_def)
  have c_img: "originalImage custom_state = Some (ascii ''data:image/png;base64'' @ comma # ascii ''AAAA'')"
    by (simp add: custom_state_def ascii_def comma_def)
  have c_sel: "selectedStyle custom_state = ascii ''custom'' \<and> trim (customStyle custom_state) \<noteq> []"
    by (simp add: custom_state_def trim_def isWhiteSpace_def ascii_def)
  have c_fld: "mimeType custom_state = ascii ''image/png'' \<and> customStyle custom_state = ascii ''oil''"
    by (simp add: custom_state_def)
  have s_img: "originalImage sketch_state = Some (ascii ''data:image/png;base64'' @ comma # ascii ''AAAA'')"
    by (simp add: sketch_state_def ascii_def comma_def)
  have s_mem: "PRESET_STYLES ! 3 \<in> set PRESET_STYLES"
    by (simp add: PRESET_STYLES_def)
  have s_sel: "selectedStyle sketch_state = id' (PRESET_STYLES ! 3)"
    by (simp add: sketch_state_def PRESET_STYLES_def)
  have s_fld: "mimeType sketch_state = ascii ''image/png'' \<and>
      prompt (PRESET_STYLES ! 3) = ascii ''Pencil sketch style, detailed, black and white, hand-drawn''"
    by (simp add: sketch_state_def PRESET_STYLES_def)
  from request_is_image_then_instruction [OF c_img h1 h2] c_sel c_fld
  have 1: "handleGenerate_start custom_state =
     (custom_state\<lparr>isGenerating := True, error := None\<rparr>,
      Some \<lparr>model = ascii ''gemini-2.5-flash-image'',
            parts =
              [InlineData (Some (ascii ''AAAA'')) (ascii ''image/png''),
               Text (ascii ''Convert this image to the following style: oil. Keep the main subject and composition the same.'')]\<rparr>)"
    by (simp add: ascii_def)
  from request_is_image_then_instruction [OF s_img h1 h2] s_mem s_sel s_fld
  have 2: "handleGenerate_start sketch_state =
     (sketch_state\<lparr>isGenerating := True, error := None\<rparr>,
      Some \<lparr>model = ascii ''gemini-2.5-flash-image'',
            parts =
              [InlineData (Some (ascii ''AAAA'')) (ascii ''image/png''),
               Text (ascii ''Convert this image to the following style: Pencil sketch style, detailed, black and white, hand-drawn. Keep the main subject and composition the same.'')]\<rparr>)"
    by (simp add: ascii_def)
  from 1 2 show ?thesis by blast
qed


section \<open>Aborted triggers\<close>

text \<open>
  C3. If \<open>originalImage\<close> is absent, the trigger sets \<open>error\<close> to \<open>MSG_UPLOAD_FIRST\<close>
  and issues no request. Otherwise (an image, which is a data-URI and so not empty, is
  loaded), if the resolved prompt is absent or blank after trimming, it sets \<open>error\<close> to
  \<open>MSG_CHOOSE_STYLE\<close> and issues no request. Whenever no request is issued,
  \<open>isGenerating\<close> keeps its value and \<open>error\<close> is the only field that changes.
\<close>

theorem generate_aborts_without_image_or_style:
  "(originalImage s = None \<longrightarrow>
      handleGenerate_start s = (s\<lparr>error := Some MSG_UPLOAD_FIRST\<rparr>, None)) \<and>
   (\<forall>img. originalImage s = Some img \<and> img \<noteq> [] \<and>
       (promptText s = None \<or> (\<exists>p. promptText s = Some p \<and> trim p = [])) \<longrightarrow>
      handleGenerate_start s = (s\<lparr>error := Some MSG_CHOOSE_STYLE\<rparr>, None)) \<and>
   (snd (handleGenerate_start s) = None \<longrightarrow>
      isGenerating (fst (handleGenerate_start s)) = isGenerating s \<and>
      (\<exists>m. fst (handleGenerate_start s) = s\<lparr>error := Some m\<rparr>))"
proof (intro conjI allI impI)
  assume "originalImage s = None"
  then show "handleGenerate_start s = (s\<lparr>error := Some MSG_UPLOAD_FIRST\<rparr>, None)"
    by (simp add: start_no_image)
next
  fix img
  assume "originalImage s = Some img \<and> img \<noteq> [] \<and>
       (promptText s = None \<or> (\<exists>p. promptText s = Some p \<and> trim p = []))"
  then show "handleGenerate_start s = (s\<lparr>error := Some MSG_CHOOSE_STYLE\<rparr>, None)"
    using start_no_prompt [of s img] by blast
next
  assume "snd (handleGenerate_start s) = None"
  then show "isGenerating (fst (handleGenerate_start s)) = isGenerating s"
    by (auto simp: handleGenerate_start_def split: option.splits if_splits)
next
  assume "snd (handleGenerate_start s) = None"
  then show "\<exists>m. fst (handleGenerate_start s) = s\<lparr>error := Some m\<rparr>"
    by (auto simp: handleGenerate_start_def split: option.splits if_splits)
qed

theorem generate_aborts_without_image_or_style_witness:
  "handleGenerate_start initial_state = (initial_state\<lparr>error := Some MSG_UPLOAD_FIRST\<rparr>, None) \<and>
   handleGenerate_start blank_custom_state = (blank_custom_state\<lparr>error := Some MSG_CHOOSE_STYLE\<rparr>, None) \<and>
   isGenerating (fst (handleGenerate_start blank_custom_state)) = isGenerating blank_custom_state"
proof -
  have a: "originalImage initial_state = None"
    by (simp add: initial_state_def)
  have b: "originalImage blank_custom_state = Some (ascii ''data:image/png;base64,AAAA'') \<and>
      ascii ''data:image/png;base64,AAAA'' \<noteq> [] \<and>
      (promptText blank_custom_state = None \<or>
       (\<exists>p. promptText blank_custom_state = Some p \<and> trim p = []))"
    by (simp add: blank_custom_state_def promptText_def trim_def isWhiteSpace_def ascii_def)
  from generate_aborts_without_image_or_style [of initial_state] a
  have 1: "handleGenerate_start initial_state = (initial_state\<lparr>error := Some MSG_UPLOAD_FIRST\<rparr>, None)"
    by blast
  from generate_aborts_without_image_or_style [of blank_custom_state] b
  have 2: "handleGenerate_start blank_custom_state =
      (blank_custom_state\<lparr>error := Some MSG_CHOOSE_STYLE\<rparr>, None)"
    by blast
  from generate_aborts_without_image_or_style [of blank_custom_state] 2
  have 3: "isGenerating (fst (handleGenerate_start blank_custom_state)) = isGenerating blank_custom_state"
    by simp
  from 1 2 3 show ?thesis by blast
qed


section \<open>Failed generations\<close>

text \<open>
  What holds of failed generations: a rejected call leaves its message in \<open>error\<close>, or
  \<open>MSG_GENERIC\<close> when it has none; a response with no candidate, or whose first
  candidate's parts carry no inline data, leaves \<open>MSG_NO_RESULT\<close>; \<open>generatedImage\<close>
  is what it was, and \<open>isGenerating\<close> is false afterwards.
\<close>

lemma failed_generation_sets_error:
  "(\<forall>t. m = Some t \<and> t \<noteq> [] \<longrightarrow>
      handleGenerate_settle rt (Rejected m) s = s\<lparr>error := Some t, isGenerating := False\<rparr>) \<and>
   (m = None \<or> m = Some [] \<longrightarrow>
      handleGenerate_settle rt (Rejected m) s = s\<lparr>error := Some MSG_GENERIC, isGenerating := False\<rparr>) \<and>
   (candidates response = None \<or> candidates response = Some [] \<or>
      (\<exists>c cs ct ps. candidates response = Some (c # cs) \<and> content c = Some ct \<and>
         content_parts ct = Some ps \<and> (\<forall>q \<in> set ps. inlineData q = None)) \<longrightarrow>
      handleGenerate_settle rt (Resolved response) s =
        s\<lparr>error := Some MSG_NO_RESULT, isGenerating := False\<rparr>) \<and>
   \<not> isGenerating (handleGenerate_settle rt out s)"
proof (intro conjI allI impI)
  fix t assume "m = Some t \<and> t \<noteq> []"
  then show "handleGenerate_settle rt (Rejected m) s = s\<lparr>error := Some t, isGenerating := False\<rparr>"
    by (simp add: settle_rejected or_else_def)
next
  assume "m = None \<or> m = Some []"
  then show "handleGenerate_settle rt (Rejected m) s =
      s\<lparr>error := Some MSG_GENERIC, isGenerating := False\<rparr>"
    by (auto simp: settle_rejected or_else_def)
next
  assume "candidates response = None \<or> candidates response = Some [] \<or>
      (\<exists>c cs ct ps. candidates response = Some (c # cs) \<and> content c = Some ct \<and>
         content_parts ct = Some ps \<and> (\<forall>q \<in> set ps. inlineData q = None))"
  then have "candidates response = None \<or> candidates response = Some [] \<or>
     (\<exists>c cs ct ps. candidates response = Some (c # cs) \<and> content c = Some ct \<and>
        content_parts ct = Some ps \<and> scan_parts ps = None)"
    by (simp add: scan_parts_none)
  then show "handleGenerate_settle rt (Resolved response) s =
      s\<lparr>error := Some MSG_NO_RESULT, isGenerating := False\<rparr>"
    by (rule settle_not_found)
next
  show "\<not> isGenerating (handleGenerate_settle rt out s)"
    by (rule settle_not_generating)
qed

text \<open>
  C4 has every response without an inline-image part end in \<open>MSG_NO_RESULT\<close>. A response
  whose first candidate has no content has no such part, but the scan does not get as far
  as its \<^verbatim>\<open>throw\<close>: reading \<^verbatim>\<open>.parts\<close> of the missing content throws a
  \<^verbatim>\<open>TypeError\<close>, and the \<^verbatim>\<open>catch\<close> puts the engine's message into \<open>error\<close>. The whole
  handler, run on a state with an image and an earlier result: \<open>error\<close> is that message,
  which is not \<open>MSG_NO_RESULT\<close>; the earlier result is kept and \<open>isGenerating\<close> is
  false again.
\<close>

theorem blocked_candidate_reports_type_error:
  "handleGenerate sample_runtime (Resolved blocked_response) styled_state =
     styled_state\<lparr>error := Some (msg_property_of_undefined sample_runtime)\<rparr> \<and>
   msg_property_of_undefined sample_runtime \<noteq> MSG_NO_RESULT \<and>
   generatedImage (handleGenerate sample_runtime (Resolved blocked_response) styled_state) =
     generatedImage styled_state \<and>
   \<not> isGenerating (handleGenerate sample_runtime (Resolved blocked_response) styled_state)"
proof -
  have start: "handleGenerate_start styled_state =
      (styled_state\<lparr>isGenerating := True, error := None\<rparr>,
       Some \<lparr>model = ascii ''gemini-2.5-flash-image'',
             parts = [InlineData (at (split comma (ascii ''data:image/png;base64,AAAA'')) 1)
                        (mimeType styled_state),
                      Text (instruction (prompt (PRESET_STYLES ! 0)))]\<rparr>)"
  proof (rule start_issues)
    show "originalImage styled_state = Some (ascii ''data:image/png;base64,AAAA'')"
      by (simp add: styled_state_def)
    show "ascii ''data:image/png;base64,AAAA'' \<noteq> []"
      by (simp add: ascii_def)
    show "promptText styled_state = Some (prompt (PRESET_STYLES ! 0))"
      by (rule promptText_of_preset) (simp_all add: styled_state_def initial_state_def PRESET_STYLES_def)
    show "trim (prompt (PRESET_STYLES ! 0)) \<noteq> []"
      using prompts_not_blank [of "PRESET_STYLES ! 0"] by (simp add: PRESET_STYLES_def)
  qed
  have msg: "msg_property_of_undefined sample_runtime \<noteq> []"
    by (simp add: sample_runtime_def ascii_def)
  have whole: "handleGenerate sample_runtime (Resolved blocked_response) styled_state =
      handleGenerate_settle sample_runtime (Resolved blocked_response)
        (styled_state\<lparr>isGenerating := True, error := None\<rparr>)"
    by (rule handleGenerate_issued [OF start])
  have settle: "handleGenerate_settle sample_runtime (Resolved blocked_response)
        (styled_state\<lparr>isGenerating := True, error := None\<rparr>) =
      styled_state\<lparr>isGenerating := True, error := None,
        error := Some (or_else (Some (msg_property_of_undefined sample_runtime)) MSG_GENERIC),
        isGenerating := False\<rparr>"
    by (rule settle_no_content [of _ "\<lparr>content = None\<rparr>" "[]"]) (simp_all add: blocked_response_def)
  have idle: "styled_state\<lparr>isGenerating := True, error := None,
        error := Some (msg_property_of_undefined sample_runtime), isGenerating := False\<rparr> =
      styled_state\<lparr>error := Some (msg_property_of_undefined sample_runtime)\<rparr>"
    by (simp add: styled_state_def initial_state_def)
  have run: "handleGenerate sample_runtime (Resolved blocked_response) styled_state =
      styled_state\<lparr>error := Some (msg_property_of_undefined sample_runtime)\<rparr>"
    using msg idle unfolding whole settle by (simp add: or_else_def)
  have ne: "msg_property_of_undefined sample_runtime \<noteq> MSG_NO_RESULT"
    by (simp add: sample_runtime_def MSG_NO_RESULT_def ascii_def)
  have idle': "\<not> isGenerating styled_state"
    by (simp add: styled_state_def initial_state_def)
  from run ne idle' show ?thesis
    by simp
qed


section \<open>The media type of the loaded image\<close>

text \<open>
  C5 as worded fails: removing the image leaves \<open>mimeType\<close> as it was. After a PNG is
  dropped and then removed, no image is loaded and \<open>mimeType\<close> is not empty.
\<close>

theorem mimeType_kept_after_removal_counterexample:
  "originalImage (run sample_runtime [Drop (Some png_file), RemoveImage]) = None \<and>
   mimeType (run sample_runtime [Drop (Some png_file), RemoveImage]) \<noteq> []"
  by (simp add: run_def initial_state_def handleDrop_def processFile_def reader_onload_def
      removeImage_def png_file_def startsWith_def ascii_def)

text \<open>
  C5, as the code has it. \<open>mimeType\<close> is empty after any sequence of events none of
  which loads an image; an event that loads an image sets it to the declared media type of
  the file; removing the image clears \<open>originalImage\<close> and leaves \<open>mimeType\<close> unchanged.
\<close>

theorem mimeType_empty_until_first_load:
  "((\<forall>e \<in> set evs. \<not> loads_image e) \<longrightarrow> mimeType (run rt evs) = []) \<and>
   (loads_image (FileChange (Some file)) \<longrightarrow> mimeType (step rt s (FileChange (Some file))) = type file) \<and>
   (loads_image (Drop (Some file)) \<longrightarrow> mimeType (step rt s (Drop (Some file))) = type file) \<and>
   originalImage (removeImage s) = None \<and>
   mimeType (removeImage s) = mimeType s"
proof (intro conjI impI)
  assume "\<forall>e \<in> set evs. \<not> loads_image e"
  then show "mimeType (run rt evs) = []"
    by (simp add: run_def foldl_keeps_mimeType initial_state_def)
next
  assume "loads_image (FileChange (Some file))"
  then show "mimeType (step rt s (FileChange (Some file))) = type file"
    by (simp add: handleFileChange_def processFile_loads)
next
  assume "loads_image (Drop (Some file))"
  then show "mimeType (step rt s (Drop (Some file))) = type file"
    by (simp add: handleDrop_def processFile_loads)
qed (simp_all add: removeImage_def)

theorem mimeType_empty_until_first_load_witness:
  "mimeType (run sample_runtime [DragOver, FileChange (Some \<lparr>type = ascii ''text/plain'', base64 = []\<rparr>), ChooseCustom,
                  EditCustom (ascii ''oil''), ClickGenerate, RemoveImage]) = [] \<and>
   mimeType (step sample_runtime initial_state (Drop (Some png_file))) = ascii ''image/png''"
proof -
  have a: "\<forall>e \<in> set [DragOver, FileChange (Some \<lparr>type = ascii ''text/plain'', base64 = []\<rparr>), ChooseCustom,
                  EditCustom (ascii ''oil''), ClickGenerate, RemoveImage]. \<not> loads_image e"
    by (simp add: startsWith_def ascii_def)
  have b: "loads_image (Drop (Some png_file))"
    by (simp add: png_file_def startsWith_def ascii_def)
  have c: "type png_file = ascii ''image/png''"
    by (simp add: png_file_def)
  from mimeType_empty_until_first_load
    [of "[DragOver, FileChange (Some \<lparr>type = ascii ''text/plain'', base64 = []\<rparr>), ChooseCustom,
                  EditCustom (ascii ''oil''), ClickGenerate, RemoveImage]" sample_runtime png_file initial_state]
  show ?thesis
    using a b c by simp
qed


section \<open>Clearing the generated image\<close>

text \<open>
  C6. Processing a file of an image type, from the picker or from a drop, sets
  \<open>originalImage\<close> to the file's data-URI and leaves \<open>generatedImage\<close> absent (the
  reader's callback does so whatever it read); removing the image leaves both
  \<open>originalImage\<close> and \<open>generatedImage\<close> absent.
\<close>

theorem load_and_remove_clear_result:
  "(startsWith (type file) (ascii ''image/'') \<longrightarrow>
      originalImage (processFile file s) = Some (readAsDataURL file) \<and>
      generatedImage (processFile file s) = None \<and>
      generatedImage (handleFileChange (Some file) s) = None \<and>
      generatedImage (handleDrop (Some file) s) = None) \<and>
   generatedImage (reader_onload result file s) = None \<and>
   originalImage (removeImage s) = None \<and>
   generatedImage (removeImage s) = None"
  by (simp add: processFile_loads handleFileChange_def handleDrop_def reader_onload_def removeImage_def)

theorem load_and_remove_clear_result_witness:
  "startsWith (type png_file) (ascii ''image/'') \<and>
   generatedImage styled_state \<noteq> None \<and>
   generatedImage (processFile png_file styled_state) = None \<and>
   generatedImage (handleDrop (Some png_file) styled_state) = None \<and>
   generatedImage (removeImage styled_state) = None"
proof -
  have a: "startsWith (type png_file) (ascii ''image/'')"
    by (simp add: png_file_def startsWith_def ascii_def)
  have b: "generatedImage styled_state \<noteq> None"
    by (simp add: styled_state_def)
  from load_and_remove_clear_result [of png_file styled_state] a b
  show ?thesis by simp
qed


section \<open>The trigger's precondition\<close>

text \<open>
  Every state the events lead to holds no image or a non-empty one.
\<close>

lemma readAsDataURL_nonempty: "readAsDataURL file \<noteq> []"
  by (simp add: readAsDataURL_def ascii_def)

lemma processFile_image_nonempty:
  "originalImage s \<noteq> Some [] \<Longrightarrow> originalImage (processFile file s) \<noteq> Some []"
  by (simp add: processFile_def reader_onload_def readAsDataURL_nonempty)

lemma step_image_nonempty:
  "originalImage s \<noteq> Some [] \<Longrightarrow> originalImage (step rt s e) \<noteq> Some []"
proof (cases e)
  case (FileChange f)
  assume "originalImage s \<noteq> Some []"
  with FileChange show ?thesis
    by (cases f) (simp_all add: handleFileChange_def processFile_image_nonempty)
next
  case (Drop f)
  assume "originalImage s \<noteq> Some []"
  with Drop show ?thesis
    by (cases f) (simp_all add: handleDrop_def processFile_image_nonempty)
next
  case (ChoosePreset i)
  assume "originalImage s \<noteq> Some []"
  with ChoosePreset show ?thesis by (simp add: chooseStyle_def split: option.splits)
qed (simp_all add: handleDragOver_def handleDragLeave_def removeImage_def chooseStyle_def
      editCustom_def start_fst_fields settle_fields)

lemma foldl_image_nonempty:
  "originalImage s \<noteq> Some [] \<Longrightarrow> originalImage (foldl (step rt) s evs) \<noteq> Some []"
  by (induction evs arbitrary: s) (simp_all add: step_image_nonempty)

lemma reachable_image_nonempty: "originalImage (run rt evs) \<noteq> Some []"
  unfolding run_def by (rule foldl_image_nonempty) (simp add: initial_state_def)

text \<open>
  C7. In every state whose \<open>originalImage\<close> is absent or a data-URI (not the empty
  string), the trigger is disabled exactly when \<open>originalImage\<close> is absent, or
  \<open>isGenerating\<close> is true, or \<open>selectedStyle\<close> is \<^verbatim>\<open>custom\<close> and \<open>customStyle\<close> is empty or
  consists of white space only.
\<close>

theorem generate_disabled_iff:
  assumes "originalImage s \<noteq> Some []"
  shows "generate_disabled s \<longleftrightarrow>
     originalImage s = None \<or> isGenerating s \<or>
     (selectedStyle s = ascii ''custom'' \<and> list_all isWhiteSpace (customStyle s))"
  using assms by (auto simp: generate_disabled_def falsy_def trim_empty_iff split: option.splits)

theorem generate_disabled_iff_witness:
  "generate_disabled initial_state \<and>
   \<not> generate_disabled (initial_state\<lparr>originalImage := Some (ascii ''data:image/png;base64,AAAA'')\<rparr>) \<and>
   generate_disabled (initial_state\<lparr>originalImage := Some (ascii ''data:image/png;base64,AAAA''),
      selectedStyle := ascii ''custom'', customStyle := ascii ''  ''\<rparr>) \<and>
   \<not> generate_disabled (initial_state\<lparr>originalImage := Some (ascii ''data:image/png;base64,AAAA''),
      selectedStyle := ascii ''custom'', customStyle := ascii '' oil ''\<rparr>)"
  using generate_disabled_iff [of initial_state]
    generate_disabled_iff [of "initial_state\<lparr>originalImage := Some (ascii ''data:image/png;base64,AAAA'')\<rparr>"]
    generate_disabled_iff [of "initial_state\<lparr>originalImage := Some (ascii ''data:image/png;base64,AAAA''),
      selectedStyle := ascii ''custom'', customStyle := ascii ''  ''\<rparr>"]
    generate_disabled_iff [of "initial_state\<lparr>originalImage := Some (ascii ''data:image/png;base64,AAAA''),
      selectedStyle := ascii ''custom'', customStyle := ascii '' oil ''\<rparr>"]
  by (simp add: initial_state_def PRESET_STYLES_def isWhiteSpace_def ascii_def)


section \<open>Files that are not images\<close>

text \<open>
  C8. For a file whose declared media type does not begin with \<^verbatim>\<open>image/\<close>,
  \<open>processFile\<close> sets \<open>error\<close> to \<open>MSG_NOT_AN_IMAGE\<close> and changes nothing else:
  \<open>originalImage\<close>, \<open>mimeType\<close>, \<open>generatedImage\<close>, \<open>selectedStyle\<close>, \<open>customStyle\<close> and
  \<open>isGenerating\<close> keep their values.
\<close>

theorem non_image_file_only_sets_error:
  assumes "\<not> startsWith (type file) (ascii ''image/'')"
  shows "processFile file s = s\<lparr>error := Some MSG_NOT_AN_IMAGE\<rparr> \<and>
     originalImage (processFile file s) = originalImage s \<and>
     mimeType (processFile file s) = mimeType s \<and>
     generatedImage (processFile file s) = generatedImage s \<and>
     selectedStyle (processFile file s) = selectedStyle s \<and>
     customStyle (processFile file s) = customStyle s \<and>
     isGenerating (processFile file s) = isGenerating s \<and>
     error (processFile file s) = Some MSG_NOT_AN_IMAGE"
  using assms by (simp add: processFile_rejects)

theorem non_image_file_only_sets_error_witness:
  "\<not> startsWith (ascii ''text/plain'') (ascii ''image/'') \<and>
   processFile \<lparr>type = ascii ''text/plain'', base64 = ascii ''aGk=''\<rparr> styled_state =
     styled_state\<lparr>error := Some MSG_NOT_AN_IMAGE\<rparr>"
proof -
  have a: "\<not> startsWith (type \<lparr>type = ascii ''text/plain'', base64 = ascii ''aGk=''\<rparr>) (ascii ''image/'')"
    by (simp add: startsWith_def ascii_def)
  from non_image_file_only_sets_error [OF a, of styled_state] a
  show ?thesis by simp
qed


section \<open>Presets and the custom text\<close>

text \<open>
  C9. When \<open>selectedStyle\<close> is the id of a catalog entry, two states that differ in
  \<open>customStyle\<close> only make the trigger issue the same request, or none in both; the
  states it leaves differ in \<open>customStyle\<close> only.
\<close>

theorem preset_request_ignores_custom_text:
  assumes "p \<in> set PRESET_STYLES" and "selectedStyle s = id' p"
  shows "snd (handleGenerate_start (s\<lparr>customStyle := a\<rparr>)) = snd (handleGenerate_start (s\<lparr>customStyle := b\<rparr>)) \<and>
     fst (handleGenerate_start (s\<lparr>customStyle := a\<rparr>)) = (fst (handleGenerate_start (s\<lparr>customStyle := b\<rparr>)))\<lparr>customStyle := a\<rparr>"
proof -
  have "selectedStyle s \<noteq> ascii ''custom''"
    using assms custom_not_preset by force
  then show ?thesis by (rule start_ignores_custom)
qed

theorem preset_request_ignores_custom_text_witness:
  "snd (handleGenerate_start (sketch_state\<lparr>customStyle := ascii ''oil painting''\<rparr>)) =
   snd (handleGenerate_start (sketch_state\<lparr>customStyle := []\<rparr>)) \<and>
   fst (handleGenerate_start (sketch_state\<lparr>customStyle := ascii ''oil painting''\<rparr>)) =
   (fst (handleGenerate_start (sketch_state\<lparr>customStyle := []\<rparr>)))\<lparr>customStyle := ascii ''oil painting''\<rparr>"
proof -
  have a: "PRESET_STYLES ! 3 \<in> set PRESET_STYLES"
    by (simp add: PRESET_STYLES_def)
  have b: "selectedStyle sketch_state = id' (PRESET_STYLES ! 3)"
    by (simp add: sketch_state_def PRESET_STYLES_def)
  show ?thesis
    by (rule preset_request_ignores_custom_text [OF a b])
qed


section \<open>Unknown style identifiers\<close>

text \<open>
  C10, as the code has it. When \<open>selectedStyle\<close> is neither \<^verbatim>\<open>custom\<close> nor the id of a
  catalog entry, the trigger issues no request. With an image loaded it sets \<open>error\<close> to
  \<open>MSG_CHOOSE_STYLE\<close> and changes nothing else; with no image it sets \<open>error\<close> to
  \<open>MSG_UPLOAD_FIRST\<close> and changes nothing else.
\<close>

theorem unknown_style_aborts:
  assumes "selectedStyle s \<noteq> ascii ''custom''"
    and "selectedStyle s \<notin> id' ` set PRESET_STYLES"
  shows "snd (handleGenerate_start s) = None \<and>
     (\<forall>img. originalImage s = Some img \<and> img \<noteq> [] \<longrightarrow>
        handleGenerate_start s = (s\<lparr>error := Some MSG_CHOOSE_STYLE\<rparr>, None)) \<and>
     (originalImage s = None \<longrightarrow>
        handleGenerate_start s = (s\<lparr>error := Some MSG_UPLOAD_FIRST\<rparr>, None))"
proof -
  have "promptText s = None"
    using assms by (simp add: promptText_def find_none)
  then show ?thesis
    by (auto simp: handleGenerate_start_def split: option.splits)
qed

theorem unknown_style_aborts_witness:
  "selectedStyle oil_state \<noteq> ascii ''custom'' \<and>
   selectedStyle oil_state \<notin> id' ` set PRESET_STYLES \<and>
   handleGenerate_start oil_state = (oil_state\<lparr>error := Some MSG_CHOOSE_STYLE\<rparr>, None)"
proof -
  have a: "selectedStyle oil_state \<noteq> ascii ''custom''"
    by (simp add: oil_state_def ascii_def)
  have b: "selectedStyle oil_state \<notin> id' ` set PRESET_STYLES"
    by (simp add: oil_state_def PRESET_STYLES_def ascii_def)
  have c: "originalImage oil_state = Some (ascii ''data:image/png;base64,AAAA'') \<and>
      ascii ''data:image/png;base64,AAAA'' \<noteq> []"
    by (simp add: oil_state_def ascii_def)
  from unknown_style_aborts [OF a b] c
  have "handleGenerate_start oil_state = (oil_state\<lparr>error := Some MSG_CHOOSE_STYLE\<rparr>, None)"
    by blast
  with a b show ?thesis by blast
qed

text \<open>
  C10 as worded promises \<open>MSG_CHOOSE_STYLE\<close> in every state. With no image loaded the
  check for the image comes first and the message is \<open>MSG_UPLOAD_FIRST\<close>.
\<close>

theorem unknown_style_without_image_counterexample:
  "selectedStyle (initial_state\<lparr>selectedStyle := ascii ''oil''\<rparr>) \<noteq> ascii ''custom'' \<and>
   selectedStyle (initial_state\<lparr>selectedStyle := ascii ''oil''\<rparr>) \<notin> id' ` set PRESET_STYLES \<and>
   error (fst (handleGenerate_start (initial_state\<lparr>selectedStyle := ascii ''oil''\<rparr>))) = Some MSG_UPLOAD_FIRST \<and>
   error (fst (handleGenerate_start (initial_state\<lparr>selectedStyle := ascii ''oil''\<rparr>))) \<noteq> Some MSG_CHOOSE_STYLE"
  by (simp add: handleGenerate_start_def initial_state_def PRESET_STYLES_def
      MSG_UPLOAD_FIRST_def MSG_CHOOSE_STYLE_def ascii_def)

end
